theory Spec2Isabelle
  imports Complex_Main "HOL-Library.Sublist"
begin

section \<open>Python values\<close>

text \<open>
  A plan arrives as decoded JSON. A float is the real number it denotes, or one of NaN
  and the two infinities. Nothing in this theory computes with floats: every operation
  that rounds or overflows (\<open>float\<close> of an integer or of a string, \<open>np.mean\<close>, the
  statistics) is a parameter, see the section on libraries.
\<close>

datatype pyfloat = Fin real | NaN | PosInf | NegInf

datatype pyval =
    PNone
  | PBool bool
  | PInt int
  | PFloat pyfloat
  | PStr string
  | PList "pyval list"
  | PDict "(string \<times> pyval) list"

text \<open>
  Exceptions. The first six are raised by Python's built-in operations; the next three are
  the \<open>ValueError\<close>s the engine constructs itself (column not found, numeric column
  compared with a non-numeric value, unknown operation); \<open>LibraryError\<close> is any
  exception coming out of pandas, scikit-learn, statsmodels or matplotlib.
\<close>

datatype exn =
    TypeError
  | KeyError
  | AttributeError
  | IndexError
  | ValueError
  | OverflowError
  | ColumnNotFound pyval
  | CannotCompare pyval pyval
  | UnknownOperation pyval
  | LibraryError nat

text \<open>Sequencing of computations that may raise: the first exception wins.\<close>

definition andthen :: "exn + 'a \<Rightarrow> ('a \<Rightarrow> exn + 'b) \<Rightarrow> exn + 'b" where
  "andthen m f = (case m of Inl e \<Rightarrow> Inl e | Inr x \<Rightarrow> f x)"

text \<open>Truth value of an object, as \<open>if x:\<close> and \<open>not x\<close> test it.\<close>

fun truthy :: "pyval \<Rightarrow> bool" where
  "truthy PNone = False"
| "truthy (PBool b) = b"
| "truthy (PInt i) = (i \<noteq> 0)"
| "truthy (PFloat (Fin r)) = (r \<noteq> 0)"
| "truthy (PFloat NaN) = True"
| "truthy (PFloat PosInf) = True"
| "truthy (PFloat NegInf) = True"
| "truthy (PStr s) = (s \<noteq> [])"
| "truthy (PList xs) = (xs \<noteq> [])"
| "truthy (PDict kvs) = (kvs \<noteq> [])"

text \<open>Lists and dicts have no hash; looking one up in a set raises \<open>TypeError\<close>.\<close>

fun hashable :: "pyval \<Rightarrow> bool" where
  "hashable (PList xs) = False"
| "hashable (PDict kvs) = False"
| "hashable v = True"

text \<open>\<open>k in obj\<close> for a string \<open>k\<close>: key of a dict, element of a list, substring of a string.\<close>

fun py_contains :: "pyval \<Rightarrow> string \<Rightarrow> exn + bool" where
  "py_contains (PDict kvs) k = Inr (map_of kvs k \<noteq> None)"
| "py_contains (PList xs) k = Inr (PStr k \<in> set xs)"
| "py_contains (PStr s) k = Inr (sublist k s)"
| "py_contains v k = Inl TypeError"

text \<open>\<open>obj[k]\<close> for a string \<open>k\<close>.\<close>

fun py_getitem :: "pyval \<Rightarrow> string \<Rightarrow> exn + pyval" where
  "py_getitem (PDict kvs) k = (case map_of kvs k of None \<Rightarrow> Inl KeyError | Some v \<Rightarrow> Inr v)"
| "py_getitem v k = Inl TypeError"

text \<open>\<open>obj.get(k, d)\<close>; \<open>obj.get(k)\<close> is \<open>obj.get(k, None)\<close>. Only a dict has \<open>get\<close>.\<close>

fun py_get_default :: "pyval \<Rightarrow> string \<Rightarrow> pyval \<Rightarrow> exn + pyval" where
  "py_get_default (PDict kvs) k d = Inr (case map_of kvs k of None \<Rightarrow> d | Some v \<Rightarrow> v)"
| "py_get_default v k d = Inl AttributeError"

definition py_get :: "pyval \<Rightarrow> string \<Rightarrow> exn + pyval" where
  "py_get obj k = py_get_default obj k PNone"

text \<open>\<open>x in S\<close> for a set \<open>S\<close> of strings: hashes \<open>x\<close> first.\<close>

definition in_str_set :: "pyval \<Rightarrow> string list \<Rightarrow> exn + bool" where
  "in_str_set x S = (if hashable x then Inr (x \<in> PStr ` set S) else Inl TypeError)"

text \<open>\<open>x in L\<close> for a list \<open>L\<close> of strings: compares with \<open>==\<close>, never hashes.\<close>

definition in_str_list :: "pyval \<Rightarrow> string list \<Rightarrow> bool" where
  "in_str_list x L = (x \<in> PStr ` set L)"

fun is_list :: "pyval \<Rightarrow> bool" where
  "is_list (PList xs) = True"
| "is_list v = False"

fun is_dict :: "pyval \<Rightarrow> bool" where
  "is_dict (PDict kvs) = True"
| "is_dict v = False"

fun is_str :: "pyval \<Rightarrow> bool" where
  "is_str (PStr s) = True"
| "is_str v = False"

fun list_items :: "pyval \<Rightarrow> pyval list" where
  "list_items (PList xs) = xs"
| "list_items v = []"

section \<open>Plan validator\<close>

text \<open>
  \<open>plan_validator.py\<close>. The messages are kept as a datatype, one constructor for each
  string the validator builds; the arguments are the values formatted into the string:
  \<^item> \<open>MissingOperation\<close>: Missing required field: 'operation'
  \<^item> \<open>InvalidOperation op\<close>: Invalid operation 'op'. Must be one of: ...
  \<^item> \<open>FiltersNotArray\<close>: 'filters' must be an array
  \<^item> \<open>FilterNotObject i\<close>: Filter at index i must be an object
  \<^item> \<open>FilterMissingColumn i\<close>: Filter at index i missing 'column'
  \<^item> \<open>FilterColumnNotString i\<close>: Filter at index i 'column' must be a string
  \<^item> \<open>FilterMissingOperator i\<close>: Filter at index i missing 'operator'
  \<^item> \<open>FilterInvalidOperator i op\<close>: Filter at index i has invalid operator 'op'. Must be one of: ...
  \<^item> \<open>FilterMissingValue i\<close>: Filter at index i missing 'value'
  \<^item> \<open>GroupByNotArray\<close>: 'group_by' must be an array
  \<^item> \<open>GroupByNotStrings\<close>: All 'group_by' elements must be strings
  \<^item> \<open>InvalidChartType ct\<close>: Invalid chart_type 'ct'. Must be one of: ...
  \<^item> \<open>ClarificationMissing\<close>: When requires_clarification is true, clarification_question must be provided
  \<^item> \<open>RequiresBothAxes op\<close>: Operation 'op' requires both x_axis and y_axis
  \<^item> \<open>ForecastRequiresTimeColumn\<close>: Operation 'forecast' requires time_column
  \<^item> \<open>ForecastRequiresTargetColumn\<close>: Operation 'forecast' requires target_column
  \<^item> \<open>TypicallyRequiresTarget op\<close> (a warning): Operation 'op' typically requires target_column
\<close>

datatype message =
    MissingOperation
  | InvalidOperation pyval
  | FiltersNotArray
  | FilterNotObject nat
  | FilterMissingColumn nat
  | FilterColumnNotString nat
  | FilterMissingOperator nat
  | FilterInvalidOperator nat pyval
  | FilterMissingValue nat
  | GroupByNotArray
  | GroupByNotStrings
  | InvalidChartType pyval
  | ClarificationMissing
  | RequiresBothAxes string
  | ForecastRequiresTimeColumn
  | ForecastRequiresTargetColumn
  | TypicallyRequiresTarget pyval

definition VALID_OPERATIONS :: "string list" where
  "VALID_OPERATIONS = [''mean'', ''sum'', ''count'', ''min'', ''max'', ''std'',
     ''correlation'', ''regression'', ''forecast'']"

definition VALID_OPERATORS :: "string list" where
  "VALID_OPERATORS = [''=='', ''!='', ''>'', ''<'', ''>='', ''<='']"

text \<open>\<open>VALID_CHART_TYPES\<close> holds six names and \<open>None\<close>.\<close>

definition VALID_CHART_NAMES :: "string list" where
  "VALID_CHART_NAMES = [''line'', ''bar'', ''scatter'', ''heatmap'', ''box'', ''histogram'']"

definition in_chart_types :: "pyval \<Rightarrow> exn + bool" where
  "in_chart_types x =
     (if hashable x then Inr (x = PNone \<or> x \<in> PStr ` set VALID_CHART_NAMES) else Inl TypeError)"

text \<open>\<open>_validate_filter(filter_obj, index)\<close>: the errors of one filter.\<close>

definition filter_column_errors :: "pyval \<Rightarrow> nat \<Rightarrow> exn + message list" where
  "filter_column_errors filter_obj index =
     andthen (py_contains filter_obj ''column'') (\<lambda>present.
       if \<not> present then Inr [FilterMissingColumn index]
       else andthen (py_getitem filter_obj ''column'') (\<lambda>c.
         if \<not> is_str c then Inr [FilterColumnNotString index] else Inr []))"

definition filter_operator_errors :: "pyval \<Rightarrow> nat \<Rightarrow> exn + message list" where
  "filter_operator_errors filter_obj index =
     andthen (py_contains filter_obj ''operator'') (\<lambda>present.
       if \<not> present then Inr [FilterMissingOperator index]
       else andthen (py_getitem filter_obj ''operator'') (\<lambda>op.
         andthen (in_str_set op VALID_OPERATORS) (\<lambda>known.
           if \<not> known then Inr [FilterInvalidOperator index op] else Inr [])))"

definition filter_value_errors :: "pyval \<Rightarrow> nat \<Rightarrow> exn + message list" where
  "filter_value_errors filter_obj index =
     andthen (py_contains filter_obj ''value'') (\<lambda>present.
       if \<not> present then Inr [FilterMissingValue index] else Inr [])"

definition validate_filter :: "pyval \<Rightarrow> nat \<Rightarrow> exn + message list" where
  "validate_filter filter_obj index =
     (if \<not> is_dict filter_obj then Inr [FilterNotObject index]
      else andthen (filter_column_errors filter_obj index) (\<lambda>e1.
           andthen (filter_operator_errors filter_obj index) (\<lambda>e2.
           andthen (filter_value_errors filter_obj index) (\<lambda>e3.
             Inr (e1 @ e2 @ e3)))))"

text \<open>
  The loop \<open>for i, filter_obj in enumerate(plan['filters'])\<close>, extending \<open>errors\<close>.
\<close>

fun validate_filters_loop :: "(nat \<times> pyval) list \<Rightarrow> message list \<Rightarrow> exn + message list" where
  "validate_filters_loop [] errors = Inr errors"
| "validate_filters_loop ((i, filter_obj) # rest) errors =
     andthen (validate_filter filter_obj i) (\<lambda>filter_errors.
       validate_filters_loop rest (errors @ filter_errors))"

text \<open>
  The blocks of \<open>validate_plan\<close>, in the order of the source. Each takes the list
  \<open>errors\<close> built so far and returns it with its own messages appended.
\<close>

definition check_operation :: "pyval \<Rightarrow> message list \<Rightarrow> exn + message list" where
  "check_operation plan errors =
     andthen (py_contains plan ''operation'') (\<lambda>present.
       if \<not> present then Inr (errors @ [MissingOperation])
       else andthen (py_getitem plan ''operation'') (\<lambda>op.
         andthen (in_str_set op VALID_OPERATIONS) (\<lambda>known.
           if \<not> known then Inr (errors @ [InvalidOperation op]) else Inr errors)))"

definition check_filters :: "pyval \<Rightarrow> message list \<Rightarrow> exn + message list" where
  "check_filters plan errors =
     andthen (py_contains plan ''filters'') (\<lambda>present.
       if \<not> present then Inr errors
       else andthen (py_getitem plan ''filters'') (\<lambda>fs.
         if \<not> is_list fs then Inr (errors @ [FiltersNotArray])
         else validate_filters_loop (enumerate 0 (list_items fs)) errors))"

definition check_group_by :: "pyval \<Rightarrow> message list \<Rightarrow> exn + message list" where
  "check_group_by plan errors =
     andthen (py_contains plan ''group_by'') (\<lambda>present.
       if \<not> present then Inr errors
       else andthen (py_getitem plan ''group_by'') (\<lambda>g.
         if \<not> is_list g then Inr (errors @ [GroupByNotArray])
         else if \<not> list_all is_str (list_items g) then Inr (errors @ [GroupByNotStrings])
         else Inr errors))"

definition check_chart_type :: "pyval \<Rightarrow> message list \<Rightarrow> exn + message list" where
  "check_chart_type plan errors =
     andthen (py_contains plan ''chart_type'') (\<lambda>present.
       if \<not> present then Inr errors
       else andthen (py_getitem plan ''chart_type'') (\<lambda>ct.
         andthen (in_chart_types ct) (\<lambda>known.
           if \<not> known then Inr (errors @ [InvalidChartType ct]) else Inr errors)))"

definition check_clarification :: "pyval \<Rightarrow> message list \<Rightarrow> exn + message list" where
  "check_clarification plan errors =
     andthen (py_get plan ''requires_clarification'') (\<lambda>rc.
       if truthy rc then
         andthen (py_get plan ''clarification_question'') (\<lambda>q.
           if \<not> truthy q then Inr (errors @ [ClarificationMissing]) else Inr errors)
       else Inr errors)"

definition check_aggregation :: "pyval \<Rightarrow> pyval \<Rightarrow> message list \<Rightarrow> exn + message list" where
  "check_aggregation plan operation warnings =
     (if in_str_list operation [''mean'', ''sum'', ''std'', ''min'', ''max''] then
        andthen (py_get plan ''target_column'') (\<lambda>t.
          if \<not> truthy t then Inr (warnings @ [TypicallyRequiresTarget operation])
          else Inr warnings)
      else Inr warnings)"

definition check_axes :: "string \<Rightarrow> pyval \<Rightarrow> pyval \<Rightarrow> message list \<Rightarrow> exn + message list" where
  "check_axes name plan operation errors =
     (if operation = PStr name then
        andthen (py_get plan ''x_axis'') (\<lambda>x.
          if \<not> truthy x then Inr (errors @ [RequiresBothAxes name])
          else andthen (py_get plan ''y_axis'') (\<lambda>y.
            if \<not> truthy y then Inr (errors @ [RequiresBothAxes name]) else Inr errors))
      else Inr errors)"

definition check_forecast :: "pyval \<Rightarrow> pyval \<Rightarrow> message list \<Rightarrow> exn + message list" where
  "check_forecast plan operation errors =
     (if operation = PStr ''forecast'' then
        andthen (py_get plan ''time_column'') (\<lambda>tc.
        andthen (py_get plan ''target_column'') (\<lambda>tg.
          Inr (errors @ (if \<not> truthy tc then [ForecastRequiresTimeColumn] else [])
                      @ (if \<not> truthy tg then [ForecastRequiresTargetColumn] else []))))
      else Inr errors)"

text \<open>The returned dict with its keys \<open>valid\<close>, \<open>errors\<close> and \<open>warnings\<close>.\<close>

record verdict =
  valid :: bool
  errors :: "message list"
  warnings :: "message list"

definition validate_plan :: "pyval \<Rightarrow> exn + verdict" where
  "validate_plan plan =
     andthen (check_operation plan []) (\<lambda>errors.
     andthen (check_filters plan errors) (\<lambda>errors.
     andthen (check_group_by plan errors) (\<lambda>errors.
     andthen (check_chart_type plan errors) (\<lambda>errors.
     andthen (check_clarification plan errors) (\<lambda>errors.
     andthen (py_get plan ''operation'') (\<lambda>operation.
     andthen (check_aggregation plan operation []) (\<lambda>warnings.
     andthen (check_axes ''correlation'' plan operation errors) (\<lambda>errors.
     andthen (check_axes ''regression'' plan operation errors) (\<lambda>errors.
     andthen (check_forecast plan operation errors) (\<lambda>errors.
       Inr \<lparr>valid = (length errors = 0), errors = errors, warnings = warnings\<rparr>))))))))))"

subsection \<open>The validation rules as the specification words them\<close>

text \<open>
  Rules 1 to 6 of the specification, each as a function from the plan's mapping to the
  list of its own failures, computed independently of the others. They are compared with
  \<open>validate_plan\<close> below. A field is present when it holds a non-empty (true) value.
\<close>

definition present :: "(string \<times> pyval) list \<Rightarrow> string \<Rightarrow> bool" where
  "present kvs k = (case map_of kvs k of None \<Rightarrow> False | Some v \<Rightarrow> truthy v)"

definition operation_rule :: "(string \<times> pyval) list \<Rightarrow> message list" where
  "operation_rule kvs =
     (case map_of kvs ''operation'' of
        None \<Rightarrow> [MissingOperation]
      | Some op \<Rightarrow> if op \<in> PStr ` set VALID_OPERATIONS then [] else [InvalidOperation op])"

fun filter_rule :: "nat \<Rightarrow> pyval \<Rightarrow> message list" where
  "filter_rule i (PDict f) =
     (case map_of f ''column'' of
        None \<Rightarrow> [FilterMissingColumn i]
      | Some c \<Rightarrow> if is_str c then [] else [FilterColumnNotString i])
     @ (case map_of f ''operator'' of
        None \<Rightarrow> [FilterMissingOperator i]
      | Some op \<Rightarrow> if op \<in> PStr ` set VALID_OPERATORS then [] else [FilterInvalidOperator i op])
     @ (case map_of f ''value'' of
        None \<Rightarrow> [FilterMissingValue i]
      | Some v \<Rightarrow> [])"
| "filter_rule i v = [FilterNotObject i]"

definition filters_rule :: "(string \<times> pyval) list \<Rightarrow> message list" where
  "filters_rule kvs =
     (case map_of kvs ''filters'' of
        None \<Rightarrow> []
      | Some fs \<Rightarrow>
          if is_list fs then concat (map (\<lambda>(i, f). filter_rule i f) (enumerate 0 (list_items fs)))
          else [FiltersNotArray])"

definition group_by_rule :: "(string \<times> pyval) list \<Rightarrow> message list" where
  "group_by_rule kvs =
     (case map_of kvs ''group_by'' of
        None \<Rightarrow> []
      | Some g \<Rightarrow>
          if \<not> is_list g then [GroupByNotArray]
          else if list_all is_str (list_items g) then [] else [GroupByNotStrings])"

definition chart_type_rule :: "(string \<times> pyval) list \<Rightarrow> message list" where
  "chart_type_rule kvs =
     (case map_of kvs ''chart_type'' of
        None \<Rightarrow> []
      | Some ct \<Rightarrow>
          if ct = PNone \<or> ct \<in> PStr ` set VALID_CHART_NAMES then [] else [InvalidChartType ct])"

definition clarification_rule :: "(string \<times> pyval) list \<Rightarrow> message list" where
  "clarification_rule kvs =
     (if present kvs ''requires_clarification'' \<and> \<not> present kvs ''clarification_question''
      then [ClarificationMissing] else [])"

definition axes_rule :: "string \<Rightarrow> (string \<times> pyval) list \<Rightarrow> message list" where
  "axes_rule name kvs =
     (if map_of kvs ''operation'' = Some (PStr name)
         \<and> \<not> (present kvs ''x_axis'' \<and> present kvs ''y_axis'')
      then [RequiresBothAxes name] else [])"

definition forecast_rule :: "(string \<times> pyval) list \<Rightarrow> message list" where
  "forecast_rule kvs =
     (if map_of kvs ''operation'' = Some (PStr ''forecast'') then
        (if present kvs ''time_column'' then [] else [ForecastRequiresTimeColumn])
        @ (if present kvs ''target_column'' then [] else [ForecastRequiresTargetColumn])
      else [])"

definition structural_rules :: "(string \<times> pyval) list \<Rightarrow> message list" where
  "structural_rules kvs =
     filters_rule kvs @ group_by_rule kvs @ chart_type_rule kvs @ clarification_rule kvs"

definition operation_specific_rule :: "(string \<times> pyval) list \<Rightarrow> message list" where
  "operation_specific_rule kvs =
     axes_rule ''correlation'' kvs @ axes_rule ''regression'' kvs @ forecast_rule kvs"

definition all_rules :: "(string \<times> pyval) list \<Rightarrow> message list" where
  "all_rules kvs = operation_rule kvs @ structural_rules kvs @ operation_specific_rule kvs"

definition warnings_rule :: "(string \<times> pyval) list \<Rightarrow> message list" where
  "warnings_rule kvs =
     (case map_of kvs ''operation'' of
        None \<Rightarrow> []
      | Some op \<Rightarrow>
          if op \<in> PStr ` set [''mean'', ''sum'', ''std'', ''min'', ''max'']
             \<and> \<not> present kvs ''target_column''
          then [TypicallyRequiresTarget op] else [])"

text \<open>
  The plans on which no membership test of the validator meets an unhashable value: a
  mapping whose \<open>operation\<close> and \<open>chart_type\<close>, and the \<open>operator\<close> of each filter
  object, are neither arrays nor objects.
\<close>

definition field_hashable :: "pyval \<Rightarrow> string \<Rightarrow> bool" where
  "field_hashable obj k = (case py_getitem obj k of Inl e \<Rightarrow> True | Inr v \<Rightarrow> hashable v)"

definition filters_hashable :: "pyval \<Rightarrow> bool" where
  "filters_hashable plan =
     (case py_getitem plan ''filters'' of
        Inl e \<Rightarrow> True
      | Inr fs \<Rightarrow> list_all (\<lambda>f. field_hashable f ''operator'') (list_items fs))"

definition hashable_plan :: "pyval \<Rightarrow> bool" where
  "hashable_plan plan =
     (is_dict plan \<and> field_hashable plan ''operation'' \<and> field_hashable plan ''chart_type''
      \<and> filters_hashable plan)"

section \<open>Frames\<close>

text \<open>
  A frame as \<open>read_csv\<close> builds it: named columns, each with its inferred dtype, and
  rows of cells. A cell is a number (a missing value is NaN) or a string. A row that lacks
  a column reads as missing there.
\<close>

datatype cell = CNum pyfloat | CStr string

datatype dtype = Int64 | Float64 | BoolDtype | Object

type_synonym row = "(string \<times> cell) list"

record frame =
  columns :: "(string \<times> dtype) list"
  rows :: "row list"

definition cell_of :: "row \<Rightarrow> string \<Rightarrow> cell" where
  "cell_of r c = (case map_of r c of None \<Rightarrow> CNum NaN | Some x \<Rightarrow> x)"

definition column_names :: "frame \<Rightarrow> string list" where
  "column_names d = map fst (columns d)"

definition column_cells :: "frame \<Rightarrow> string \<Rightarrow> cell list" where
  "column_cells d c = map (\<lambda>r. cell_of r c) (rows d)"

text \<open>\<open>pd.api.types.is_numeric_dtype\<close>: every dtype of \<open>read_csv\<close> but \<open>object\<close>.\<close>

definition is_numeric_dtype :: "dtype \<Rightarrow> bool" where
  "is_numeric_dtype t = (t \<noteq> Object)"

text \<open>\<open>df.empty\<close>: some axis has length 0.\<close>

definition frame_empty :: "frame \<Rightarrow> bool" where
  "frame_empty d = (rows d = [] \<or> columns d = [])"

text \<open>\<open>column in df.columns\<close>: hashes the key, then looks it up among the names.\<close>

fun has_column :: "frame \<Rightarrow> pyval \<Rightarrow> exn + bool" where
  "has_column d (PStr c) = Inr (c \<in> set (column_names d))"
| "has_column d (PList xs) = Inl TypeError"
| "has_column d (PDict kvs) = Inl TypeError"
| "has_column d v = Inr False"

text \<open>\<open>df[mask]\<close>: the rows at which the boolean mask holds.\<close>

definition select_rows :: "bool list \<Rightarrow> frame \<Rightarrow> frame" where
  "select_rows keep d = d\<lparr>rows := map snd (filter fst (zip keep (rows d)))\<rparr>"

section \<open>Third-party libraries\<close>

text \<open>
  What pandas, scikit-learn, statsmodels and matplotlib compute is not in the repository.
  Their operations are parameters of the model, each returning a value or the exception
  it raises:
  \<^item> \<open>read_csv path\<close>: \<open>pd.read_csv(file_path)\<close>;
  \<^item> \<open>float_of_str s\<close>: \<open>float(s)\<close> on a string, \<open>None\<close> when it does not parse;
  \<^item> \<open>float_of_int i\<close>: \<open>float(i)\<close> on an integer, rounded to the nearest float,
    \<open>None\<close> when the integer is beyond the range of floats;
  \<^item> \<open>float_mean xs\<close>: \<open>float(np.mean(xs))\<close> on an array of numbers, the mean in
    float arithmetic (NaN for an empty array);
  \<^item> \<open>order_compare op cell value\<close>: one element of \<open>series op value\<close> for the
    ordering operators;
  \<^item> \<open>array_compare op cells values\<close>: \<open>series op value\<close> when \<open>value\<close> is an array;
  \<^item> \<open>getitem_other d key\<close>: \<open>df[key].values\<close> (or \<open>df[[key]].values\<close>) for a key that is
    not a string;
  \<^item> \<open>series_agg name d target\<close>: \<open>float(df[target].mean())\<close> and its siblings;
  \<^item> \<open>grouped_agg name d group_by target\<close>:
    \<open>df.groupby(group_by)[target].mean().to_dict()\<close> and its siblings;
  \<^item> \<open>grouped_size d group_by\<close>: \<open>df.groupby(group_by).size().to_dict()\<close>;
  \<^item> \<open>corr d x y\<close>: \<open>float(df[[x, y]].corr().iloc[0, 1])\<close>;
  \<^item> \<open>linreg_fit X y\<close>: \<open>LinearRegression().fit(X, y)\<close>, giving \<open>coef_[0]\<close> and
    \<open>intercept_\<close>;
  \<^item> \<open>linreg_score X y model\<close>: \<open>model.score(X, y)\<close>;
  \<^item> \<open>sort_values d by\<close>: \<open>df.sort_values(by)\<close>;
  \<^item> \<open>exp_smoothing train\<close>: the three values of
    \<open>ExponentialSmoothing(train, seasonal_periods=4, trend='add', seasonal='add').fit().forecast(steps=3)\<close>;
  \<^item> \<open>draw_chart d plan\<close>: the body of the \<open>try\<close> block of \<open>_generate_chart\<close>, from
    \<open>plt.figure\<close> to the encoded image.
\<close>

record lib =
  read_csv :: "string \<Rightarrow> exn + frame"
  float_of_str :: "string \<Rightarrow> pyfloat option"
  float_of_int :: "int \<Rightarrow> pyfloat option"
  float_mean :: "pyfloat list \<Rightarrow> pyfloat"
  order_compare :: "string \<Rightarrow> cell \<Rightarrow> pyval \<Rightarrow> exn + bool"
  array_compare :: "string \<Rightarrow> cell list \<Rightarrow> pyval list \<Rightarrow> exn + bool list"
  getitem_other :: "frame \<Rightarrow> pyval \<Rightarrow> exn + cell list"
  series_agg :: "string \<Rightarrow> frame \<Rightarrow> pyval \<Rightarrow> exn + pyfloat"
  grouped_agg :: "string \<Rightarrow> frame \<Rightarrow> pyval \<Rightarrow> pyval \<Rightarrow> exn + (pyval \<times> pyfloat) list"
  grouped_size :: "frame \<Rightarrow> pyval \<Rightarrow> exn + (pyval \<times> nat) list"
  corr :: "frame \<Rightarrow> pyval \<Rightarrow> pyval \<Rightarrow> exn + pyfloat"
  linreg_fit :: "cell list \<Rightarrow> cell list \<Rightarrow> exn + pyfloat \<times> pyfloat"
  linreg_score :: "cell list \<Rightarrow> cell list \<Rightarrow> pyfloat \<times> pyfloat \<Rightarrow> exn + pyfloat"
  sort_values :: "frame \<Rightarrow> pyval \<Rightarrow> exn + frame"
  exp_smoothing :: "cell list \<Rightarrow> exn + pyfloat list"
  draw_chart :: "frame \<Rightarrow> pyval \<Rightarrow> exn + string"

text \<open>
  \<open>float(value)\<close> on a plan value: \<open>OverflowError\<close> for an integer too large,
  \<open>ValueError\<close> for a string that does not parse, \<open>TypeError\<close> for \<open>None\<close>, arrays
  and objects.
\<close>

fun py_float :: "lib \<Rightarrow> pyval \<Rightarrow> exn + pyfloat" where
  "py_float L (PInt i) = (case float_of_int L i of None \<Rightarrow> Inl OverflowError | Some x \<Rightarrow> Inr x)"
| "py_float L (PFloat x) = Inr x"
| "py_float L (PBool b) = Inr (Fin (if b then 1 else 0))"
| "py_float L (PStr s) = (case float_of_str L s of None \<Rightarrow> Inl ValueError | Some x \<Rightarrow> Inr x)"
| "py_float L v = Inl TypeError"

text \<open>\<open>float(x)\<close> on an element of a column.\<close>

fun cell_float :: "lib \<Rightarrow> cell \<Rightarrow> exn + pyfloat" where
  "cell_float L (CNum x) = Inr x"
| "cell_float L (CStr s) = (case float_of_str L s of None \<Rightarrow> Inl ValueError | Some x \<Rightarrow> Inr x)"

text \<open>
  \<open>==\<close> between a cell and a scalar: numbers compare by value, an integer exactly as
  Python compares it with a float (a bool counts as 0 or 1, NaN equals nothing), strings by
  content, and values of different kinds are unequal.
\<close>

fun num_of :: "pyval \<Rightarrow> pyfloat option" where
  "num_of (PInt i) = Some (Fin (of_int i))"
| "num_of (PFloat x) = Some x"
| "num_of (PBool b) = Some (Fin (if b then 1 else 0))"
| "num_of v = None"

fun cell_eq :: "cell \<Rightarrow> pyval \<Rightarrow> bool" where
  "cell_eq (CNum x) v = (x \<noteq> NaN \<and> num_of v = Some x)"
| "cell_eq (CStr s) v = (v = PStr s)"

text \<open>\<open>df[col].values\<close>.\<close>

fun column_values :: "lib \<Rightarrow> frame \<Rightarrow> pyval \<Rightarrow> exn + cell list" where
  "column_values L d (PStr c) =
     (if c \<in> set (column_names d) then Inr (column_cells d c) else Inl KeyError)"
| "column_values L d key = getitem_other L d key"

text \<open>
  \<open>float(np.mean(train))\<close> on an array of cells: strings have no mean; the mean of
  numbers is the library's.
\<close>

fun is_num :: "cell \<Rightarrow> bool" where
  "is_num (CNum x) = True"
| "is_num (CStr s) = False"

fun finite_value :: "cell \<Rightarrow> real option" where
  "finite_value (CNum (Fin a)) = Some a"
| "finite_value c = None"

fun numbers :: "cell list \<Rightarrow> pyfloat list" where
  "numbers [] = []"
| "numbers (CNum x # cs) = x # numbers cs"
| "numbers (CStr s # cs) = numbers cs"

definition np_mean :: "lib \<Rightarrow> cell list \<Rightarrow> exn + pyfloat" where
  "np_mean L xs =
     (if \<not> list_all is_num xs then Inl TypeError else Inr (float_mean L (numbers xs)))"

section \<open>Execution engine\<close>

text \<open>\<open>execution_engine.py\<close>. The engine holds the loaded frame and its column types.\<close>

record engine =
  df :: "frame option"
  column_info :: "(string \<times> dtype) list"

text \<open>\<open>__init__\<close>.\<close>

definition init :: engine where
  "init = \<lparr>df = None, column_info = []\<rparr>"

subsection \<open>load_csv\<close>

record metadata =
  meta_columns :: "string list"
  column_types :: "(string \<times> dtype) list"
  row_count :: nat
  preview :: "row list"

datatype load_result = LoadFailed exn | Loaded metadata

definition load_csv :: "lib \<Rightarrow> string \<Rightarrow> engine \<Rightarrow> engine \<times> load_result" where
  "load_csv L file_path self =
     (case read_csv L file_path of
        Inl e \<Rightarrow> (self, LoadFailed e)
      | Inr d \<Rightarrow>
          (self\<lparr>df := Some d, column_info := columns d\<rparr>,
           Loaded \<lparr>meta_columns = column_names d, column_types = columns d,
                   row_count = length (rows d), preview = take 5 (rows d)\<rparr>))"

subsection \<open>_apply_filters\<close>

text \<open>Iterating over a plan value, as \<open>for f in filters\<close> does.\<close>

fun py_iter :: "pyval \<Rightarrow> exn + pyval list" where
  "py_iter (PList xs) = Inr xs"
| "py_iter (PStr s) = Inr (map (\<lambda>c. PStr [c]) s)"
| "py_iter (PDict kvs) = Inr (map (\<lambda>kv. PStr (fst kv)) kvs)"
| "py_iter v = Inl TypeError"

text \<open>Collecting the results of a list of computations; the first exception wins.\<close>

fun collect :: "(exn + 'a) list \<Rightarrow> exn + 'a list" where
  "collect [] = Inr []"
| "collect (m # ms) = andthen m (\<lambda>x. andthen (collect ms) (\<lambda>xs. Inr (x # xs)))"

text \<open>
  The value converted for the column: \<open>float(value)\<close> for a numeric column, where a
  \<open>ValueError\<close> or \<open>TypeError\<close> becomes the engine's own error and any other
  exception passes through.
\<close>

definition dtype_of :: "frame \<Rightarrow> string \<Rightarrow> dtype" where
  "dtype_of d c = (case map_of (columns d) c of None \<Rightarrow> Object | Some t \<Rightarrow> t)"

definition convert_value :: "lib \<Rightarrow> frame \<Rightarrow> string \<Rightarrow> pyval \<Rightarrow> exn + pyval" where
  "convert_value L d c v =
     (if is_numeric_dtype (dtype_of d c) then
        (case py_float L v of
           Inl e \<Rightarrow> if e = ValueError \<or> e = TypeError then Inl (CannotCompare (PStr c) v)
                    else Inl e
         | Inr x \<Rightarrow> Inr (PFloat x))
      else Inr v)"

text \<open>The mask \<open>filtered[column] op value\<close>.\<close>

definition compare_mask :: "lib \<Rightarrow> string \<Rightarrow> cell list \<Rightarrow> pyval \<Rightarrow> exn + bool list" where
  "compare_mask L op cells v =
     (if is_list v then array_compare L op cells (list_items v)
      else if op = ''=='' then Inr (map (\<lambda>c. cell_eq c v) cells)
      else if op = ''!='' then Inr (map (\<lambda>c. \<not> cell_eq c v) cells)
      else collect (map (\<lambda>c. order_compare L op c v) cells))"

text \<open>The operator chain: an operator outside the six leaves the frame as it is.\<close>

definition apply_operator :: "lib \<Rightarrow> frame \<Rightarrow> string \<Rightarrow> pyval \<Rightarrow> pyval \<Rightarrow> exn + frame" where
  "apply_operator L filtered c operator v =
     (if operator \<in> PStr ` set VALID_OPERATORS then
        andthen (compare_mask L (case operator of PStr op \<Rightarrow> op | _ \<Rightarrow> []) (column_cells filtered c) v)
          (\<lambda>keep. Inr (select_rows keep filtered))
      else Inr filtered)"

text \<open>One round of the loop over the filters.\<close>

definition apply_filter :: "lib \<Rightarrow> frame \<Rightarrow> pyval \<Rightarrow> exn + frame" where
  "apply_filter L filtered f =
     andthen (py_getitem f ''column'') (\<lambda>column.
     andthen (py_getitem f ''operator'') (\<lambda>operator.
     andthen (py_getitem f ''value'') (\<lambda>v.
     andthen (has_column filtered column) (\<lambda>found.
       if \<not> found then Inl (ColumnNotFound column)
       else (case column of
               PStr c \<Rightarrow> andthen (convert_value L filtered c v) (\<lambda>v'.
                          apply_operator L filtered c operator v')
             | _ \<Rightarrow> Inl (ColumnNotFound column))))))"

fun apply_filters_loop :: "lib \<Rightarrow> frame \<Rightarrow> pyval list \<Rightarrow> exn + frame" where
  "apply_filters_loop L filtered [] = Inr filtered"
| "apply_filters_loop L filtered (f # fs) =
     andthen (apply_filter L filtered f) (\<lambda>filtered'. apply_filters_loop L filtered' fs)"

definition apply_filters :: "lib \<Rightarrow> frame \<Rightarrow> pyval \<Rightarrow> exn + frame" where
  "apply_filters L d filters = andthen (py_iter filters) (apply_filters_loop L d)"

subsection \<open>_execute_operation\<close>

text \<open>The payloads the operations return.\<close>

record forecast_payload =
  forecast_values :: "pyfloat list"
  last_actual :: pyfloat
  target_column :: pyval
  method_tag :: "string option"

record regression_payload =
  slope :: pyfloat
  intercept :: pyfloat
  r_squared :: pyfloat
  x_column :: pyval
  y_column :: pyval

datatype payload =
    Scalar pyfloat
  | Count nat
  | Grouped "(pyval \<times> pyfloat) list"
  | GroupedCount "(pyval \<times> nat) list"
  | Correlation pyfloat pyval pyval
  | Regression regression_payload
  | Forecast forecast_payload

text \<open>The five aggregations over a target column share one shape.\<close>

definition aggregate :: "lib \<Rightarrow> string \<Rightarrow> frame \<Rightarrow> pyval \<Rightarrow> pyval \<Rightarrow> exn + payload" where
  "aggregate L name d target_col group_by =
     (if truthy group_by then andthen (grouped_agg L name d group_by target_col) (\<lambda>m. Inr (Grouped m))
      else andthen (series_agg L name d target_col) (\<lambda>x. Inr (Scalar x)))"

definition count_rows :: "lib \<Rightarrow> frame \<Rightarrow> pyval \<Rightarrow> exn + payload" where
  "count_rows L d group_by =
     (if truthy group_by then andthen (grouped_size L d group_by) (\<lambda>m. Inr (GroupedCount m))
      else Inr (Count (length (rows d))))"

definition correlation :: "lib \<Rightarrow> frame \<Rightarrow> pyval \<Rightarrow> exn + payload" where
  "correlation L d plan =
     andthen (py_getitem plan ''x_axis'') (\<lambda>x_col.
     andthen (py_getitem plan ''y_axis'') (\<lambda>y_col.
     andthen (corr L d x_col y_col) (\<lambda>c. Inr (Correlation c x_col y_col))))"

definition regression :: "lib \<Rightarrow> frame \<Rightarrow> pyval \<Rightarrow> exn + payload" where
  "regression L d plan =
     andthen (py_getitem plan ''x_axis'') (\<lambda>x_col.
     andthen (py_getitem plan ''y_axis'') (\<lambda>y_col.
     andthen (column_values L d x_col) (\<lambda>X.
     andthen (column_values L d y_col) (\<lambda>y.
     andthen (linreg_fit L X y) (\<lambda>model.
     andthen (linreg_score L X y model) (\<lambda>r.
       Inr (Regression \<lparr>slope = fst model, intercept = snd model, r_squared = r,
              x_column = x_col, y_column = y_col\<rparr>)))))))"

text \<open>\<open>values[-k:]\<close> and \<open>values[-1]\<close>.\<close>

definition last_slice :: "nat \<Rightarrow> 'a list \<Rightarrow> 'a list" where
  "last_slice k xs = (if k = 0 then xs else drop (length xs - k) xs)"

definition last_item :: "'a list \<Rightarrow> exn + 'a" where
  "last_item xs = (if xs = [] then Inl IndexError else Inr (last xs))"

definition train_window :: "cell list \<Rightarrow> cell list" where
  "train_window vals = last_slice (min (length vals) 12) vals"

text \<open>The \<open>try\<close> block of the forecast, and the block of its bare \<open>except\<close>.\<close>

definition forecast_seasonal :: "lib \<Rightarrow> cell list \<Rightarrow> pyval \<Rightarrow> exn + payload" where
  "forecast_seasonal L vals target_col =
     andthen (exp_smoothing L (train_window vals)) (\<lambda>fc.
     andthen (last_item vals) (\<lambda>v.
     andthen (cell_float L v) (\<lambda>la.
       Inr (Forecast \<lparr>forecast_values = fc, last_actual = la, target_column = target_col,
              method_tag = None\<rparr>))))"

definition forecast_fallback :: "lib \<Rightarrow> cell list \<Rightarrow> pyval \<Rightarrow> exn + payload" where
  "forecast_fallback L vals target_col =
     andthen (np_mean L (train_window vals)) (\<lambda>forecast_value.
     andthen (last_item vals) (\<lambda>v.
     andthen (cell_float L v) (\<lambda>la.
       Inr (Forecast \<lparr>forecast_values = replicate 3 forecast_value, last_actual = la,
              target_column = target_col, method_tag = Some ''simple_average''\<rparr>))))"

definition forecast :: "lib \<Rightarrow> frame \<Rightarrow> pyval \<Rightarrow> exn + payload" where
  "forecast L d plan =
     andthen (py_getitem plan ''time_column'') (\<lambda>time_col.
     andthen (py_getitem plan ''target_column'') (\<lambda>target_col.
     andthen (sort_values L d time_col) (\<lambda>df_sorted.
     andthen (column_values L df_sorted target_col) (\<lambda>vals.
       (case forecast_seasonal L vals target_col of
          Inr p \<Rightarrow> Inr p
        | Inl e \<Rightarrow> forecast_fallback L vals target_col)))))"

definition execute_operation :: "lib \<Rightarrow> frame \<Rightarrow> pyval \<Rightarrow> exn + payload" where
  "execute_operation L d plan =
     andthen (py_getitem plan ''operation'') (\<lambda>operation.
     andthen (py_get plan ''target_column'') (\<lambda>target_col.
     andthen (py_get_default plan ''group_by'' (PList [])) (\<lambda>group_by.
       if operation = PStr ''mean'' then aggregate L ''mean'' d target_col group_by
       else if operation = PStr ''sum'' then aggregate L ''sum'' d target_col group_by
       else if operation = PStr ''count'' then count_rows L d group_by
       else if operation = PStr ''min'' then aggregate L ''min'' d target_col group_by
       else if operation = PStr ''max'' then aggregate L ''max'' d target_col group_by
       else if operation = PStr ''std'' then aggregate L ''std'' d target_col group_by
       else if operation = PStr ''correlation'' then correlation L d plan
       else if operation = PStr ''regression'' then regression L d plan
       else if operation = PStr ''forecast'' then forecast L d plan
       else Inl (UnknownOperation operation))))"

subsection \<open>_generate_chart\<close>

text \<open>Whatever the drawing raises is caught and becomes \<open>None\<close>.\<close>

definition generate_chart :: "lib \<Rightarrow> frame \<Rightarrow> pyval \<Rightarrow> exn + string option" where
  "generate_chart L d plan =
     andthen (py_get plan ''chart_type'') (\<lambda>chart_type.
       if \<not> truthy chart_type then Inr None
       else (case draw_chart L d plan of
               Inl e \<Rightarrow> Inr None
             | Inr png \<Rightarrow> Inr (Some png)))"

subsection \<open>execute_plan\<close>

text \<open>
  The three failures \<open>execute_plan\<close> reports: No CSV data loaded; Filters resulted in
  empty dataset; Execution failed: followed by the exception's text.
\<close>

datatype failure = NoDataLoaded | EmptyDataset | ExecutionFailed exn

record outcome =
  operation :: pyval
  result :: payload
  chart :: "string option"
  filtered_row_count :: nat

datatype exec_result = Failure failure | Success outcome

text \<open>The body of the \<open>try\<close> block; it returns early on an empty frame.\<close>

definition execute_body :: "lib \<Rightarrow> frame \<Rightarrow> pyval \<Rightarrow> exn + exec_result" where
  "execute_body L d plan =
     andthen (py_get_default plan ''filters'' (PList [])) (\<lambda>filters.
     andthen (apply_filters L d filters) (\<lambda>filtered_df.
       if frame_empty filtered_df then Inr (Failure EmptyDataset)
       else
         andthen (py_getitem plan ''operation'') (\<lambda>op.
         andthen (execute_operation L filtered_df plan) (\<lambda>res.
         andthen (py_get plan ''chart_type'') (\<lambda>chart_type.
         andthen (if truthy chart_type then generate_chart L filtered_df plan else Inr None)
           (\<lambda>chart_data.
             Inr (Success \<lparr>operation = op, result = res, chart = chart_data,
                    filtered_row_count = length (rows filtered_df)\<rparr>)))))))"

definition execute_plan :: "lib \<Rightarrow> engine \<Rightarrow> pyval \<Rightarrow> exec_result" where
  "execute_plan L self plan =
     (case df self of
        None \<Rightarrow> Failure NoDataLoaded
      | Some d \<Rightarrow>
          (case execute_body L d plan of
             Inl e \<Rightarrow> Failure (ExecutionFailed e)
           | Inr r \<Rightarrow> r))"

subsection \<open>Equality filters\<close>

text \<open>
  A filter as the data model has it, \<open>{column: string, operator, value: scalar}\<close>, whose
  operator is \<open>==\<close> or \<open>!=\<close>; and the test such a filter puts on a row.
\<close>

definition equality_filter :: "pyval \<Rightarrow> bool" where
  "equality_filter f =
     (is_dict f
      \<and> (case py_getitem f ''column'' of Inl e \<Rightarrow> False | Inr c \<Rightarrow> is_str c)
      \<and> (py_getitem f ''operator'' = Inr (PStr ''=='')
          \<or> py_getitem f ''operator'' = Inr (PStr ''!=''))
      \<and> (case py_getitem f ''value'' of Inl e \<Rightarrow> False | Inr v \<Rightarrow> hashable v))"

definition keeps :: "string \<Rightarrow> string \<Rightarrow> pyval \<Rightarrow> row \<Rightarrow> bool" where
  "keeps op c v r = (if op = ''=='' then cell_eq (cell_of r c) v else \<not> cell_eq (cell_of r c) v)"

section \<open>A stand-in library and sample data\<close>

text \<open>
  To evaluate the engine on concrete inputs the library parameters need values. The
  stand-in below is small: integers up to \<open>2^53\<close> in magnitude convert to the float of
  the same value and larger ones are refused, the mean and least squares are computed
  exactly (as floats do on data whose sums and quotients they hold exactly), the seasonal
  model refuses a window shorter than two seasonal periods (8 points) and otherwise repeats
  the last value, sorting is by a numeric key, drawing a heatmap fails, and one file name
  loads.
\<close>

definition finite_values :: "cell list \<Rightarrow> real list option" where
  "finite_values xs =
     (if list_all (\<lambda>c. finite_value c \<noteq> None) xs then Some (map (\<lambda>c. the (finite_value c)) xs)
      else None)"

definition mean :: "real list \<Rightarrow> real" where
  "mean xs = sum_list xs / real (length xs)"

fun finite_float :: "pyfloat \<Rightarrow> real option" where
  "finite_float (Fin a) = Some a"
| "finite_float x = None"

definition exact_mean :: "pyfloat list \<Rightarrow> pyfloat" where
  "exact_mean xs =
     (if xs = [] \<or> \<not> list_all (\<lambda>x. finite_float x \<noteq> None) xs then NaN
      else Fin (mean (map (\<lambda>x. the (finite_float x)) xs)))"

text \<open>
  Ordinary least squares with an intercept, as \<open>LinearRegression\<close> solves it: the data are
  centred and the minimum-norm solution is taken, so a constant predictor gives slope 0
  and the mean of \<open>y\<close> as intercept.
\<close>

definition ols :: "real list \<Rightarrow> real list \<Rightarrow> real \<times> real" where
  "ols xs ys =
     (let mx = mean xs; my = mean ys;
          sxx = sum_list (map (\<lambda>x. (x - mx) * (x - mx)) xs);
          sxy = sum_list (map (\<lambda>(x, y). (x - mx) * (y - my)) (zip xs ys));
          b = (if sxx = 0 then 0 else sxy / sxx)
      in (b, my - b * mx))"

definition ols_fit :: "cell list \<Rightarrow> cell list \<Rightarrow> exn + pyfloat \<times> pyfloat" where
  "ols_fit X y =
     (case (finite_values X, finite_values y) of
        (Some xs, Some ys) \<Rightarrow>
          if xs = [] \<or> length xs \<noteq> length ys then Inl ValueError
          else Inr (Fin (fst (ols xs ys)), Fin (snd (ols xs ys)))
      | _ \<Rightarrow> Inl ValueError)"

text \<open>The coefficient of determination of the fitted line.\<close>

definition r2 :: "real list \<Rightarrow> real list \<Rightarrow> real \<times> real \<Rightarrow> pyfloat" where
  "r2 xs ys model =
     (let my = mean ys;
          ss_res = sum_list (map (\<lambda>(x, y). (y - (fst model * x + snd model))
                                            * (y - (fst model * x + snd model))) (zip xs ys));
          ss_tot = sum_list (map (\<lambda>y. (y - my) * (y - my)) ys)
      in if length ys < 2 then NaN
         else if ss_tot = 0 then (if ss_res = 0 then Fin 1 else Fin 0)
         else Fin (1 - ss_res / ss_tot))"

definition ols_score :: "cell list \<Rightarrow> cell list \<Rightarrow> pyfloat \<times> pyfloat \<Rightarrow> exn + pyfloat" where
  "ols_score X y model =
     (case (finite_values X, finite_values y, model) of
        (Some xs, Some ys, (Fin b, Fin a)) \<Rightarrow>
          if xs = [] \<or> length xs \<noteq> length ys then Inl ValueError else Inr (r2 xs ys (b, a))
      | _ \<Rightarrow> Inl ValueError)"

definition numeric_sort :: "frame \<Rightarrow> pyval \<Rightarrow> exn + frame" where
  "numeric_sort d by =
     (case by of
        PStr c \<Rightarrow>
          if c \<in> set (column_names d) \<and> finite_values (column_cells d c) \<noteq> None
          then Inr (d\<lparr>rows := sort_key (\<lambda>r. the (finite_value (cell_of r c))) (rows d)\<rparr>)
          else Inl KeyError
      | _ \<Rightarrow> Inl KeyError)"

definition numeric_order :: "string \<Rightarrow> cell \<Rightarrow> pyval \<Rightarrow> exn + bool" where
  "numeric_order op c v =
     (case (finite_value c, num_of v) of
        (Some a, Some (Fin b)) \<Rightarrow>
          Inr (if op = ''>'' then a > b else if op = ''<'' then a < b
               else if op = ''>='' then a \<ge> b else a \<le> b)
      | _ \<Rightarrow> Inl TypeError)"

definition sample :: frame where
  "sample = \<lparr>columns = [(''month'', Int64), (''region'', Object), (''sales'', Float64)],
     rows = [[(''month'', CNum (Fin 2)), (''region'', CStr ''N''), (''sales'', CNum (Fin 20))],
             [(''month'', CNum (Fin 1)), (''region'', CStr ''N''), (''sales'', CNum (Fin 10))],
             [(''month'', CNum (Fin 3)), (''region'', CStr ''S''), (''sales'', CNum (Fin 30))]]\<rparr>"


text \<open>A frame whose \<open>x\<close> column holds a single distinct value.\<close>

definition flat :: frame where
  "flat = \<lparr>columns = [(''x'', Int64), (''y'', Int64)],
     rows = [[(''x'', CNum (Fin 1)), (''y'', CNum (Fin 1))],
             [(''x'', CNum (Fin 1)), (''y'', CNum (Fin 3))]]\<rparr>"

definition stand_in :: lib where
  "stand_in = \<lparr>
     read_csv = (\<lambda>path. if path = ''sample.csv'' then Inr sample else Inl (LibraryError 0)),
     float_of_str = (\<lambda>s. None),
     float_of_int = (\<lambda>i. if \<bar>i\<bar> \<le> 2 ^ 53 then Some (Fin (of_int i)) else None),
     float_mean = exact_mean,
     order_compare = numeric_order,
     array_compare = (\<lambda>op cells vs. Inl ValueError),
     getitem_other = (\<lambda>d key. Inl KeyError),
     series_agg = (\<lambda>name d target. Inl (LibraryError 1)),
     grouped_agg = (\<lambda>name d group_by target. Inl (LibraryError 1)),
     grouped_size = (\<lambda>d group_by. Inl (LibraryError 1)),
     corr = (\<lambda>d x y. Inl (LibraryError 1)),
     linreg_fit = ols_fit,
     linreg_score = ols_score,
     sort_values = numeric_sort,
     exp_smoothing = (\<lambda>train. if length train < 8 then Inl ValueError
                               else (case last train of
                                       CNum x \<Rightarrow> Inr (replicate 3 x)
                                     | CStr s \<Rightarrow> Inl ValueError)),
     draw_chart = (\<lambda>d plan. if py_get plan ''chart_type'' = Inr (PStr ''heatmap'')
                             then Inl (LibraryError 2) else Inr ''data:image/png;base64,'')\<rparr>"

section \<open>The validator meets its rules\<close>

lemma andthen_Inr [simp]: "andthen (Inr x) f = f x"
  by (simp add: andthen_def)

lemma andthen_Inl [simp]: "andthen (Inl e) f = Inl e"
  by (simp add: andthen_def)

lemma validate_filter_rule:
  "field_hashable f ''operator'' \<Longrightarrow> validate_filter f i = Inr (filter_rule i f)"
  by (cases f)
     (auto simp: validate_filter_def filter_column_errors_def filter_operator_errors_def
        filter_value_errors_def field_hashable_def in_str_set_def split: option.splits)

lemma validate_filters_loop_rule:
  "list_all (\<lambda>f. field_hashable f ''operator'') (map snd ifs) \<Longrightarrow>
   validate_filters_loop ifs acc = Inr (acc @ concat (map (\<lambda>(i, f). filter_rule i f) ifs))"
  by (induction ifs arbitrary: acc) (auto simp: validate_filter_rule)

lemma check_operation_rule:
  "field_hashable (PDict kvs) ''operation'' \<Longrightarrow>
   check_operation (PDict kvs) acc = Inr (acc @ operation_rule kvs)"
  by (auto simp: check_operation_def operation_rule_def field_hashable_def in_str_set_def
      split: option.splits)

lemma check_filters_rule:
  "filters_hashable (PDict kvs) \<Longrightarrow>
   check_filters (PDict kvs) acc = Inr (acc @ filters_rule kvs)"
  by (auto simp: check_filters_def filters_rule_def filters_hashable_def
      validate_filters_loop_rule map_snd_enumerate split: option.splits)

lemma check_group_by_rule:
  "check_group_by (PDict kvs) acc = Inr (acc @ group_by_rule kvs)"
  by (auto simp: check_group_by_def group_by_rule_def split: option.splits)

lemma check_chart_type_rule:
  "field_hashable (PDict kvs) ''chart_type'' \<Longrightarrow>
   check_chart_type (PDict kvs) acc = Inr (acc @ chart_type_rule kvs)"
  by (auto simp: check_chart_type_def chart_type_rule_def field_hashable_def in_chart_types_def
      split: option.splits)

lemma check_clarification_rule:
  "check_clarification (PDict kvs) acc = Inr (acc @ clarification_rule kvs)"
  by (auto simp: check_clarification_def clarification_rule_def py_get_def present_def
      split: option.splits)

lemma check_axes_rule:
  "py_get (PDict kvs) ''operation'' = Inr op \<Longrightarrow>
   check_axes name (PDict kvs) op acc = Inr (acc @ axes_rule name kvs)"
  by (auto simp: check_axes_def axes_rule_def py_get_def present_def split: option.splits)

lemma check_forecast_rule:
  "py_get (PDict kvs) ''operation'' = Inr op \<Longrightarrow>
   check_forecast (PDict kvs) op acc = Inr (acc @ forecast_rule kvs)"
  by (auto simp: check_forecast_def forecast_rule_def py_get_def present_def split: option.splits)

lemma check_aggregation_rule:
  "py_get (PDict kvs) ''operation'' = Inr op \<Longrightarrow>
   check_aggregation (PDict kvs) op acc = Inr (acc @ warnings_rule kvs)"
  by (auto simp: check_aggregation_def warnings_rule_def py_get_def present_def in_str_list_def
      split: option.splits)

lemma validate_plan_rules:
  assumes "hashable_plan (PDict kvs)"
  shows "validate_plan (PDict kvs) =
    Inr \<lparr>valid = (all_rules kvs = []), errors = all_rules kvs, warnings = warnings_rule kvs\<rparr>"
proof -
  obtain op where op: "py_get (PDict kvs) ''operation'' = Inr op"
    by (simp add: py_get_def)
  from assms have h: "field_hashable (PDict kvs) ''operation''"
    "field_hashable (PDict kvs) ''chart_type''" "filters_hashable (PDict kvs)"
    by (simp_all add: hashable_plan_def)
  show ?thesis
    unfolding validate_plan_def
    by (simp add: check_operation_rule [OF h(1)] check_filters_rule [OF h(3)]
        check_group_by_rule check_chart_type_rule [OF h(2)] check_clarification_rule op
        check_axes_rule [OF op] check_forecast_rule [OF op] check_aggregation_rule [OF op]
        all_rules_def structural_rules_def operation_specific_rule_def)
qed

lemma validate_plan_not_dict: "\<not> is_dict plan \<Longrightarrow> \<exists>e. validate_plan plan = Inl e"
  by (cases plan)
     (auto simp: validate_plan_def check_operation_def check_filters_def check_group_by_def
        check_chart_type_def check_clarification_def py_get_def andthen_def split: sum.splits)


lemma filter_rule_hashable: "filter_rule i f = [] \<Longrightarrow> field_hashable f ''operator''"
  by (cases f) (auto simp: field_hashable_def split: option.splits if_splits)

lemma filters_rule_hashable:
  assumes "filters_rule kvs = []"
  shows "filters_hashable (PDict kvs)"
proof (cases "map_of kvs ''filters''")
  case None
  then show ?thesis by (simp add: filters_hashable_def)
next
  case (Some fs)
  with assms have "\<forall>p \<in> set (enumerate 0 (list_items fs)). filter_rule (fst p) (snd p) = []"
    by (auto simp: filters_rule_def split: if_splits)
  then have "\<forall>f \<in> set (list_items fs). field_hashable f ''operator''"
    by (metis filter_rule_hashable in_set_conv_nth length_enumerate nth_enumerate_eq add_0 snd_conv fst_conv)
  with Some show ?thesis by (simp add: filters_hashable_def list_all_iff)
qed

lemma chart_type_rule_hashable:
  "chart_type_rule kvs = [] \<Longrightarrow> field_hashable (PDict kvs) ''chart_type''"
  by (auto simp: chart_type_rule_def field_hashable_def split: option.splits if_splits)

lemma structural_rules_hashable:
  assumes "structural_rules kvs = []" and "map_of kvs ''operation'' = Some (PStr name)"
  shows "hashable_plan (PDict kvs)"
proof -
  have "field_hashable (PDict kvs) ''operation''"
    using assms(2) by (simp add: field_hashable_def)
  with assms(1) show ?thesis
    by (simp add: hashable_plan_def structural_rules_def filters_rule_hashable
        chart_type_rule_hashable)
qed

lemma validate_filter_unhashable:
  "\<not> field_hashable f ''operator'' \<Longrightarrow> validate_filter f i = Inl TypeError"
  by (cases f)
     (auto simp: validate_filter_def filter_column_errors_def filter_operator_errors_def
        field_hashable_def in_str_set_def split: option.splits)

lemma validate_filters_loop_unhashable:
  "\<not> list_all (\<lambda>f. field_hashable f ''operator'') (map snd ifs) \<Longrightarrow>
   validate_filters_loop ifs acc = Inl TypeError"
proof (induction ifs arbitrary: acc)
  case Nil
  then show ?case by simp
next
  case (Cons p ifs)
  obtain i f where p: "p = (i, f)" by (cases p)
  show ?case
  proof (cases "field_hashable f ''operator''")
    case True
    with Cons p show ?thesis by (simp add: validate_filter_rule)
  next
    case False
    with p show ?thesis by (simp add: validate_filter_unhashable)
  qed
qed

lemma check_operation_unhashable:
  "\<not> field_hashable (PDict kvs) ''operation'' \<Longrightarrow> check_operation (PDict kvs) acc = Inl TypeError"
  by (auto simp: check_operation_def field_hashable_def in_str_set_def split: option.splits)

lemma check_filters_unhashable:
  "\<not> filters_hashable (PDict kvs) \<Longrightarrow> check_filters (PDict kvs) acc = Inl TypeError"
  by (cases "map_of kvs ''filters''"; cases "the (map_of kvs ''filters'')")
     (auto simp: check_filters_def filters_hashable_def validate_filters_loop_unhashable
        map_snd_enumerate)

lemma check_chart_type_unhashable:
  "\<not> field_hashable (PDict kvs) ''chart_type'' \<Longrightarrow>
   check_chart_type (PDict kvs) acc = Inl TypeError"
  by (auto simp: check_chart_type_def field_hashable_def in_chart_types_def split: option.splits)

lemma validate_plan_raises_unhashable:
  assumes "\<not> hashable_plan plan"
  shows "\<exists>e. validate_plan plan = Inl e"
proof (cases "is_dict plan")
  case False
  then show ?thesis by (rule validate_plan_not_dict)
next
  case True
  then obtain kvs where plan: "plan = PDict kvs" by (cases plan) auto
  show ?thesis
  proof (cases "field_hashable plan ''operation''")
    case False
    then show ?thesis
      by (simp add: plan validate_plan_def check_operation_unhashable)
  next
    case op: True
    show ?thesis
    proof (cases "filters_hashable plan")
      case False
      then show ?thesis using op
        by (simp add: plan validate_plan_def check_operation_rule check_filters_unhashable)
    next
      case fs: True
      with op assms have "\<not> field_hashable plan ''chart_type''"
        by (simp add: hashable_plan_def plan)
      then show ?thesis using op fs
        by (simp add: plan validate_plan_def check_operation_rule check_filters_rule
            check_group_by_rule check_chart_type_unhashable)
    qed
  qed
qed

text \<open>
  Claim C2, as amended. For every plan whose operation is \<open>correlation\<close> or
  \<open>regression\<close> and that passes the structural rules (filters, group_by, chart_type,
  clarification), \<open>validate_plan\<close> returns no error when both \<open>x_axis\<close> and
  \<open>y_axis\<close> are present and non-empty, and otherwise exactly one error, the single
  message that the operation requires both axes, whether one axis is missing or both.
\<close>

theorem axes_single_error:
  assumes "map_of kvs ''operation'' = Some (PStr name)"
    and "name = ''correlation'' \<or> name = ''regression''"
    and "structural_rules kvs = []"
  shows "validate_plan (PDict kvs) =
    Inr \<lparr>valid = (present kvs ''x_axis'' \<and> present kvs ''y_axis''),
         errors = (if present kvs ''x_axis'' \<and> present kvs ''y_axis'' then []
                   else [RequiresBothAxes name]),
         warnings = []\<rparr>"
proof -
  have "all_rules kvs = axes_rule name kvs"
    using assms
    by (auto simp: all_rules_def operation_rule_def VALID_OPERATIONS_def
        operation_specific_rule_def axes_rule_def forecast_rule_def)
  moreover have "warnings_rule kvs = []"
    using assms by (auto simp: warnings_rule_def)
  ultimately show ?thesis
    using validate_plan_rules [OF structural_rules_hashable [OF assms(3) assms(1)]] assms(1)
    by (simp add: axes_rule_def)
qed


text \<open>
  Claim C1, as amended. For every plan that is a mapping whose \<open>operation\<close> and
  \<open>chart_type\<close> values and whose filters' \<open>operator\<close> values are hashable (neither
  arrays nor objects), \<open>validate_plan\<close> returns a verdict and does not raise; the verdict
  is valid exactly when its error list is empty; and when \<open>operation\<close> is missing or lies
  outside the fixed set, the verdict is invalid with at least one error.
\<close>

theorem validate_plan_on_mappings:
  assumes "hashable_plan plan"
  shows "\<exists>v. validate_plan plan = Inr v \<and> valid v = (errors v = []) \<and>
           ((py_contains plan ''operation'' = Inr False
             \<or> (\<exists>op. py_getitem plan ''operation'' = Inr op \<and> op \<notin> PStr ` set VALID_OPERATIONS))
            \<longrightarrow> \<not> valid v \<and> errors v \<noteq> [])"
proof -
  from assms obtain kvs where plan: "plan = PDict kvs"
    by (cases plan) (auto simp: hashable_plan_def)
  have "py_contains plan ''operation'' = Inr False
          \<or> (\<exists>op. py_getitem plan ''operation'' = Inr op \<and> op \<notin> PStr ` set VALID_OPERATIONS)
        \<Longrightarrow> operation_rule kvs \<noteq> []"
    by (auto simp: plan operation_rule_def split: option.splits)
  then show ?thesis
    using validate_plan_rules [of kvs] assms by (auto simp: plan all_rules_def)
qed

text \<open>Witness for C1: a mapping with the unknown operation \<open>median\<close>.\<close>

theorem validate_plan_on_mappings_witness:
  "hashable_plan (PDict [(''operation'', PStr ''median'')]) \<and>
   (\<exists>op. py_getitem (PDict [(''operation'', PStr ''median'')]) ''operation'' = Inr op
      \<and> op \<notin> PStr ` set VALID_OPERATIONS) \<and>
   (\<exists>v. validate_plan (PDict [(''operation'', PStr ''median'')]) = Inr v
      \<and> \<not> valid v \<and> errors v \<noteq> [])"
proof -
  have h: "hashable_plan (PDict [(''operation'', PStr ''median'')])"
    by (simp add: hashable_plan_def field_hashable_def filters_hashable_def)
  have o: "\<exists>op. py_getitem (PDict [(''operation'', PStr ''median'')]) ''operation'' = Inr op
      \<and> op \<notin> PStr ` set VALID_OPERATIONS"
    by (simp add: VALID_OPERATIONS_def)
  from validate_plan_on_mappings [OF h] o h show ?thesis by blast
qed

text \<open>
  Counterexample for C1 as stated: the JSON body \<open>5\<close> is a plan that is not a mapping;
  the first test, \<open>'operation' not in plan\<close>, raises \<open>TypeError\<close>, and nothing in
  \<open>validate_plan\<close> catches it.
\<close>

theorem validate_plan_raises_counterexample: "validate_plan (PInt 5) = Inl TypeError"
  by (simp add: validate_plan_def check_operation_def)

text \<open>Witness for C2: a regression plan with \<open>x_axis\<close> and no \<open>y_axis\<close>.\<close>

theorem axes_single_error_witness:
  "validate_plan (PDict [(''operation'', PStr ''regression''), (''x_axis'', PStr ''x'')]) =
     Inr \<lparr>valid = False, errors = [RequiresBothAxes ''regression''], warnings = []\<rparr>"
  using axes_single_error [of "[(''operation'', PStr ''regression''), (''x_axis'', PStr ''x'')]"
      "''regression''"]
  by (simp add: structural_rules_def filters_rule_def group_by_rule_def chart_type_rule_def
      clarification_rule_def present_def)

text \<open>
  Counterexample for C2 as stated: with both axes missing the verdict carries one error,
  not one per axis.
\<close>

theorem both_axes_missing_counterexample:
  "validate_plan (PDict [(''operation'', PStr ''correlation'')]) =
     Inr \<lparr>valid = False, errors = [RequiresBothAxes ''correlation''], warnings = []\<rparr>"
  by (simp add: validate_plan_def check_operation_def check_filters_def check_group_by_def
      check_chart_type_def check_clarification_def py_get_def check_aggregation_def
      check_axes_def check_forecast_def in_str_set_def in_str_list_def VALID_OPERATIONS_def)

text \<open>
  Claim C3, as amended. For every plan that is a mapping with hashable \<open>operation\<close>,
  \<open>chart_type\<close> and filter \<open>operator\<close> values, the returned error list is the
  concatenation, in order, of the failures of every rule: operation membership, filters
  (itemised by index), group_by, chart_type, clarification pairing, and the
  operation-specific requirements. An unknown operation contributes exactly one error and
  the failures of all structural rules follow it.
\<close>

theorem validate_plan_accumulates:
  assumes "hashable_plan (PDict kvs)"
  shows "validate_plan (PDict kvs) =
      Inr \<lparr>valid = (all_rules kvs = []),
           errors = operation_rule kvs @ filters_rule kvs @ group_by_rule kvs
                    @ chart_type_rule kvs @ clarification_rule kvs
                    @ operation_specific_rule kvs,
           warnings = warnings_rule kvs\<rparr>
    \<and> (\<forall>op. map_of kvs ''operation'' = Some op \<and> op \<notin> PStr ` set VALID_OPERATIONS \<longrightarrow>
          validate_plan (PDict kvs) =
            Inr \<lparr>valid = False,
                 errors = [InvalidOperation op] @ filters_rule kvs @ group_by_rule kvs
                          @ chart_type_rule kvs @ clarification_rule kvs,
                 warnings = []\<rparr>)"
proof -
  have "operation_specific_rule kvs = [] \<and> warnings_rule kvs = []
      \<and> operation_rule kvs = [InvalidOperation op]"
    if "map_of kvs ''operation'' = Some op" "op \<notin> PStr ` set VALID_OPERATIONS" for op
    using that
    by (auto simp: operation_specific_rule_def axes_rule_def forecast_rule_def
        warnings_rule_def operation_rule_def VALID_OPERATIONS_def)
  then show ?thesis
    using validate_plan_rules [OF assms]
    by (auto simp: all_rules_def structural_rules_def)
qed

text \<open>Witness for C3: an unknown operation together with four structural failures.\<close>

theorem validate_plan_accumulates_witness:
  "validate_plan (PDict [(''operation'', PStr ''median''), (''filters'', PList [PInt 3,
       PDict [(''column'', PInt 1)]]), (''group_by'', PStr ''g''),
       (''chart_type'', PStr ''pie''), (''requires_clarification'', PBool True)]) =
     Inr \<lparr>valid = False,
          errors = [InvalidOperation (PStr ''median''), FilterNotObject 0,
            FilterColumnNotString 1, FilterMissingOperator 1, FilterMissingValue 1,
            GroupByNotArray, InvalidChartType (PStr ''pie''), ClarificationMissing],
          warnings = []\<rparr>"
proof -
  let ?kvs = "[(''operation'', PStr ''median''), (''filters'', PList [PInt 3,
       PDict [(''column'', PInt 1)]]), (''group_by'', PStr ''g''),
       (''chart_type'', PStr ''pie''), (''requires_clarification'', PBool True)]"
  have h: "hashable_plan (PDict ?kvs)"
    by (simp add: hashable_plan_def field_hashable_def filters_hashable_def)
  have o: "map_of ?kvs ''operation'' = Some (PStr ''median'')
      \<and> PStr ''median'' \<notin> PStr ` set VALID_OPERATIONS"
    by (simp add: VALID_OPERATIONS_def)
  have r: "filters_rule ?kvs = [FilterNotObject 0,
            FilterColumnNotString 1, FilterMissingOperator 1, FilterMissingValue 1]"
    "group_by_rule ?kvs = [GroupByNotArray]" "chart_type_rule ?kvs = [InvalidChartType (PStr ''pie'')]"
    "clarification_rule ?kvs = [ClarificationMissing]"
    by (simp_all add: filters_rule_def group_by_rule_def chart_type_rule_def clarification_rule_def
        present_def VALID_CHART_NAMES_def enumerate_eq_zip upt_rec)
  from validate_plan_accumulates [OF h] o
  have "validate_plan (PDict ?kvs) =
      Inr \<lparr>valid = False,
           errors = [InvalidOperation (PStr ''median'')] @ filters_rule ?kvs @ group_by_rule ?kvs
                    @ chart_type_rule ?kvs @ clarification_rule ?kvs,
           warnings = []\<rparr>"
    by blast
  then show ?thesis unfolding r by simp
qed

text \<open>
  Counterexample for C3 as stated: on the JSON array \<open>[1]\<close> the operation check runs
  and finds \<open>operation\<close> missing, but \<open>plan.get\<close> then raises \<open>AttributeError\<close>,
  so no error list is returned and the failure found is not reported.
\<close>

theorem validate_plan_accumulates_counterexample:
  "check_operation (PList [PInt 1]) [] = Inr [MissingOperation]
   \<and> validate_plan (PList [PInt 1]) = Inl AttributeError"
  by (simp add: validate_plan_def check_operation_def check_filters_def check_group_by_def
      check_chart_type_def check_clarification_def py_get_def)

section \<open>The engine\<close>

subsection \<open>Empty result after filtering\<close>

text \<open>
  Claim C4. For every loaded frame and every plan whose filters apply without error and
  keep no row, \<open>execute_plan\<close> returns the failure "Filters resulted in empty dataset".
  The library \<open>L\<close> is arbitrary, so the result does not depend on what the operation
  would compute or raise: the dispatcher is not reached.
\<close>

theorem execute_plan_empty_result:
  assumes "df self = Some d"
    and "py_get_default plan ''filters'' (PList []) = Inr fs"
    and "apply_filters L d fs = Inr filtered"
    and "rows filtered = []"
  shows "execute_plan L self plan = Failure EmptyDataset"
  using assms by (simp add: execute_plan_def execute_body_def frame_empty_def)

text \<open>
  Witness for C4: a regression plan without axes, which the dispatcher would reject, and a
  filter that matches no row of the sample.
\<close>

theorem execute_plan_empty_result_witness:
  "execute_plan stand_in \<lparr>df = Some sample, column_info = columns sample\<rparr>
     (PDict [(''operation'', PStr ''regression''),
             (''filters'', PList [PDict [(''column'', PStr ''region''),
                (''operator'', PStr ''==''), (''value'', PStr ''W'')]])])
   = Failure EmptyDataset"
proof -
  let ?f = "PList [PDict [(''column'', PStr ''region''),
                (''operator'', PStr ''==''), (''value'', PStr ''W'')]]"
  have a: "apply_filters stand_in sample ?f = Inr (sample\<lparr>rows := []\<rparr>)"
    by (simp add: apply_filters_def apply_filter_def sample_def column_names_def
        convert_value_def dtype_of_def is_numeric_dtype_def apply_operator_def
        VALID_OPERATORS_def compare_mask_def column_cells_def cell_of_def select_rows_def)
  show ?thesis
    by (rule execute_plan_empty_result [where d = sample and fs = ?f, OF _ _ a]) simp_all
qed

subsection \<open>Chart failures\<close>

lemma generate_chart_absorbs:
  "py_get plan ''chart_type'' = Inr ct \<Longrightarrow>
   \<exists>c. generate_chart L d plan = Inr c \<and> (\<forall>e. draw_chart L d plan = Inl e \<longrightarrow> c = None)"
  by (auto simp: generate_chart_def split: sum.splits)

text \<open>
  Claim C8. Whenever the filters leave a non-empty frame and the operation returns a payload,
  \<open>execute_plan\<close> returns success with that payload and the filtered row count, whatever
  the chart drawing does; if the drawing raises, the chart is \<open>None\<close>.
\<close>

theorem chart_failure_absorbed:
  assumes "df self = Some d"
    and "py_get_default plan ''filters'' (PList []) = Inr fs"
    and "apply_filters L d fs = Inr filtered"
    and "\<not> frame_empty filtered"
    and "execute_operation L filtered plan = Inr res"
  shows "\<exists>op c. py_getitem plan ''operation'' = Inr op
           \<and> execute_plan L self plan =
               Success \<lparr>operation = op, result = res, chart = c,
                        filtered_row_count = length (rows filtered)\<rparr>
           \<and> (\<forall>e. draw_chart L filtered plan = Inl e \<longrightarrow> c = None)"
proof -
  from assms(2) obtain kvs where plan: "plan = PDict kvs"
    by (cases plan) auto
  from assms(5) obtain op where op: "py_getitem plan ''operation'' = Inr op"
    by (auto simp: execute_operation_def plan split: option.splits)
  obtain ct where ct: "py_get plan ''chart_type'' = Inr ct"
    by (simp add: plan py_get_def)
  from generate_chart_absorbs [OF ct] obtain c where
    c: "generate_chart L filtered plan = Inr c"
       "\<forall>e. draw_chart L filtered plan = Inl e \<longrightarrow> c = None"
    by blast
  show ?thesis
  proof (cases "truthy ct")
    case True
    with assms op ct c show ?thesis
      by (simp add: execute_plan_def execute_body_def)
  next
    case False
    with assms op ct show ?thesis
      by (simp add: execute_plan_def execute_body_def)
  qed
qed

text \<open>Witness for C8: counting the sample's rows with a heatmap requested, whose drawing fails.\<close>

theorem chart_failure_absorbed_witness:
  "draw_chart stand_in sample
     (PDict [(''operation'', PStr ''count''), (''chart_type'', PStr ''heatmap'')])
     = Inl (LibraryError 2)
   \<and> execute_plan stand_in \<lparr>df = Some sample, column_info = columns sample\<rparr>
       (PDict [(''operation'', PStr ''count''), (''chart_type'', PStr ''heatmap'')])
     = Success \<lparr>operation = PStr ''count'', result = Count 3, chart = None,
                filtered_row_count = 3\<rparr>"
proof -
  let ?plan = "PDict [(''operation'', PStr ''count''), (''chart_type'', PStr ''heatmap'')]"
  let ?self = "\<lparr>df = Some sample, column_info = columns sample\<rparr>"
  have a: "apply_filters stand_in sample (PList []) = Inr sample"
    by (simp add: apply_filters_def)
  have n: "\<not> frame_empty sample"
    by (simp add: frame_empty_def sample_def)
  have r: "execute_operation stand_in sample ?plan = Inr (Count 3)"
    by (simp add: execute_operation_def py_get_def count_rows_def sample_def)
  have d: "draw_chart stand_in sample ?plan = Inl (LibraryError 2)"
    by (simp add: stand_in_def py_get_def)
  have l: "length (rows sample) = 3"
    by (simp add: sample_def)
  from chart_failure_absorbed [where self = ?self and plan = ?plan and L = stand_in,
      OF _ _ a n r]
  obtain op c where
    "py_getitem ?plan ''operation'' = Inr op"
    "execute_plan stand_in ?self ?plan =
       Success \<lparr>operation = op, result = Count 3, chart = c,
                filtered_row_count = length (rows sample)\<rparr>"
    "\<forall>e. draw_chart stand_in sample ?plan = Inl e \<longrightarrow> c = None"
    by auto
  with d l show ?thesis by simp
qed

subsection \<open>Loading\<close>

text \<open>
  Claim C10. When the source fails to parse, \<open>load_csv\<close> reports the failure with its
  message and returns the engine as it was, frame and column types untouched, so executing
  a plan afterwards gives what it gave before the call.
\<close>

theorem load_failure_keeps_state:
  assumes "read_csv L file_path = Inl e"
  shows "load_csv L file_path self = (self, LoadFailed e)
         \<and> execute_plan L (fst (load_csv L file_path self)) plan = execute_plan L self plan"
  using assms by (simp add: load_csv_def)

text \<open>Witness for C10: a file the stand-in cannot read, loaded over an engine holding a frame.\<close>

theorem load_failure_keeps_state_witness:
  "read_csv stand_in ''missing.csv'' = Inl (LibraryError 0)
   \<and> load_csv stand_in ''missing.csv'' \<lparr>df = Some flat, column_info = columns flat\<rparr>
       = (\<lparr>df = Some flat, column_info = columns flat\<rparr>, LoadFailed (LibraryError 0))"
proof -
  have r: "read_csv stand_in ''missing.csv'' = Inl (LibraryError 0)"
    by (simp add: stand_in_def)
  from load_failure_keeps_state [OF r] r show ?thesis by simp
qed

subsection \<open>Order of filters\<close>

lemma select_rows_map: "select_rows (map g (rows d)) d = d\<lparr>rows := filter g (rows d)\<rparr>"
proof -
  have "map snd (filter fst (zip (map g xs) xs)) = filter g xs" for xs :: "row list"
    by (induction xs) auto
  then show ?thesis by (simp add: select_rows_def)
qed

lemma hashable_not_list: "hashable v \<Longrightarrow> \<not> is_list v"
  by (cases v) auto

lemma convert_value_not_list:
  "hashable v \<Longrightarrow> convert_value L d c v = Inr v' \<Longrightarrow> \<not> is_list v'"
  by (auto simp: convert_value_def hashable_not_list split: if_splits sum.splits)

lemma apply_operator_equality:
  assumes "op = ''=='' \<or> op = ''!=''" and "\<not> is_list v"
  shows "apply_operator L d c (PStr op) v = Inr (d\<lparr>rows := filter (keeps op c v) (rows d)\<rparr>)"
proof -
  have "compare_mask L op (column_cells d c) v = Inr (map (keeps op c v) (rows d))"
    using assms by (auto simp: compare_mask_def column_cells_def keeps_def)
  moreover have "PStr op \<in> PStr ` set VALID_OPERATORS"
    using assms(1) by (auto simp: VALID_OPERATORS_def)
  ultimately show ?thesis by (simp add: apply_operator_def select_rows_map)
qed

lemma apply_filter_equality:
  assumes "equality_filter f"
  shows "\<exists>c op v. py_getitem f ''column'' = Inr (PStr c) \<and> (op = ''=='' \<or> op = ''!='') \<and>
     (\<forall>d. apply_filter L d f =
       (if c \<notin> set (column_names d) then Inl (ColumnNotFound (PStr c))
        else case convert_value L d c v of
               Inl e \<Rightarrow> Inl e
             | Inr v' \<Rightarrow> Inr (d\<lparr>rows := filter (keeps op c v') (rows d)\<rparr>)))"
proof -
  from assms obtain col opv v where g:
    "py_getitem f ''column'' = Inr col" "is_str col"
    "py_getitem f ''operator'' = Inr opv" "opv = PStr ''=='' \<or> opv = PStr ''!=''"
    "py_getitem f ''value'' = Inr v" "hashable v"
    by (auto simp: equality_filter_def split: sum.splits)
  from g(2) obtain c where c: "col = PStr c" by (cases col) auto
  from g(4) obtain op where op: "opv = PStr op" "op = ''=='' \<or> op = ''!=''" by auto
  have "apply_filter L d f =
       (if c \<notin> set (column_names d) then Inl (ColumnNotFound (PStr c))
        else case convert_value L d c v of
               Inl e \<Rightarrow> Inl e
             | Inr v' \<Rightarrow> Inr (d\<lparr>rows := filter (keeps op c v') (rows d)\<rparr>))" for d
    using g c op convert_value_not_list [OF g(6)]
    by (auto simp: apply_filter_def apply_operator_equality split: sum.splits)
  with g(1) c op(2) show ?thesis by blast
qed

lemma convert_value_rows [simp]: "convert_value L (d\<lparr>rows := xs\<rparr>) c v = convert_value L d c v"
  by (simp add: convert_value_def dtype_of_def)

lemma column_names_rows [simp]: "column_names (d\<lparr>rows := xs\<rparr>) = column_names d"
  by (simp add: column_names_def)

lemma equality_filters_commute:
  assumes "equality_filter A" and "equality_filter B"
  shows "apply_filters L d (PList [A, B]) = Inr r \<longleftrightarrow> apply_filters L d (PList [B, A]) = Inr r"
proof -
  from apply_filter_equality [OF assms(1), of L] obtain ca opa va where
    a: "\<And>d. apply_filter L d A =
       (if ca \<notin> set (column_names d) then Inl (ColumnNotFound (PStr ca))
        else case convert_value L d ca va of
               Inl e \<Rightarrow> Inl e
             | Inr v' \<Rightarrow> Inr (d\<lparr>rows := filter (keeps opa ca v') (rows d)\<rparr>))"
    by blast
  from apply_filter_equality [OF assms(2), of L] obtain cb opb vb where
    b: "\<And>d. apply_filter L d B =
       (if cb \<notin> set (column_names d) then Inl (ColumnNotFound (PStr cb))
        else case convert_value L d cb vb of
               Inl e \<Rightarrow> Inl e
             | Inr v' \<Rightarrow> Inr (d\<lparr>rows := filter (keeps opb cb v') (rows d)\<rparr>))"
    by blast
  have comm: "filter (\<lambda>x. P x \<and> Q x) xs = filter (\<lambda>x. Q x \<and> P x) xs"
    for P Q and xs :: "row list"
    by (simp add: conj_commute)
  show ?thesis
    by (auto simp: apply_filters_def a b comm [of "keeps opa ca _"] split: sum.splits)
qed

text \<open>
  Claim C9. For every frame and every two filters with operator \<open>==\<close> or \<open>!=\<close> on
  different columns, the lists \<open>[A, B]\<close> and \<open>[B, A]\<close> give the same result: each
  returns a frame exactly when the other does, and then it is the same frame, with the same
  rows in the same order. (When a filter is rejected, both orders are rejected.)
\<close>

theorem filters_commute:
  assumes "equality_filter A" and "equality_filter B"
    and "py_getitem A ''column'' \<noteq> py_getitem B ''column''"
  shows "apply_filters L d (PList [A, B]) = Inr r \<longleftrightarrow> apply_filters L d (PList [B, A]) = Inr r"
  using assms(1,2) by (rule equality_filters_commute)

text \<open>Witness for C9: region equal to N and sales different from 10, on the sample.\<close>

theorem filters_commute_witness:
  "apply_filters stand_in sample
     (PList [PDict [(''column'', PStr ''region''), (''operator'', PStr ''==''), (''value'', PStr ''N'')],
             PDict [(''column'', PStr ''sales''), (''operator'', PStr ''!=''), (''value'', PInt 10)]])
     = Inr (sample\<lparr>rows := [[(''month'', CNum (Fin 2)), (''region'', CStr ''N''),
                               (''sales'', CNum (Fin 20))]]\<rparr>)
   \<and> apply_filters stand_in sample
     (PList [PDict [(''column'', PStr ''sales''), (''operator'', PStr ''!=''), (''value'', PInt 10)],
             PDict [(''column'', PStr ''region''), (''operator'', PStr ''==''), (''value'', PStr ''N'')]])
     = Inr (sample\<lparr>rows := [[(''month'', CNum (Fin 2)), (''region'', CStr ''N''),
                               (''sales'', CNum (Fin 20))]]\<rparr>)"
proof -
  let ?A = "PDict [(''column'', PStr ''region''), (''operator'', PStr ''==''), (''value'', PStr ''N'')]"
  let ?B = "PDict [(''column'', PStr ''sales''), (''operator'', PStr ''!=''), (''value'', PInt 10)]"
  let ?r = "sample\<lparr>rows := [[(''month'', CNum (Fin 2)), (''region'', CStr ''N''),
                               (''sales'', CNum (Fin 20))]]\<rparr>"
  have A: "equality_filter ?A" and B: "equality_filter ?B"
    by (simp_all add: equality_filter_def)
  have ne: "py_getitem ?A ''column'' \<noteq> py_getitem ?B ''column''"
    by simp
  have ten: "float_of_int stand_in 10 = Some (Fin 10)"
    by (simp add: stand_in_def)
  have ab: "apply_filters stand_in sample (PList [?A, ?B]) = Inr ?r"
    by (simp add: apply_filters_def apply_filter_def sample_def column_names_def
        convert_value_def dtype_of_def is_numeric_dtype_def apply_operator_def ten
        VALID_OPERATORS_def compare_mask_def column_cells_def cell_of_def select_rows_def)
  from filters_commute [OF A B ne, of stand_in sample ?r] ab show ?thesis by simp
qed

subsection \<open>Regression\<close>

lemma andthen_cases:
  "andthen m f = (case m of Inl e \<Rightarrow> Inl e | Inr x \<Rightarrow> f x)"
  by (simp add: andthen_def)

text \<open>
  Claim C5, as amended. The regression operation makes no test of its own on the number of
  distinct x-values: on every frame that has the two columns, its outcome is the outcome of
  the least-squares fit and of its score; it returns the payload
  \<open>{slope, intercept, r_squared, x_column, y_column}\<close> whenever both succeed, and
  otherwise raises what the fitting raised.
\<close>

theorem regression_has_no_guard:
  assumes "py_getitem plan ''operation'' = Inr (PStr ''regression'')"
    and "py_getitem plan ''x_axis'' = Inr x_col"
    and "py_getitem plan ''y_axis'' = Inr y_col"
    and "column_values L d x_col = Inr X"
    and "column_values L d y_col = Inr y"
  shows "execute_operation L d plan =
     (case linreg_fit L X y of
        Inl e \<Rightarrow> Inl e
      | Inr model \<Rightarrow>
          (case linreg_score L X y model of
             Inl e \<Rightarrow> Inl e
           | Inr r \<Rightarrow> Inr (Regression \<lparr>slope = fst model, intercept = snd model,
                               r_squared = r, x_column = x_col, y_column = y_col\<rparr>)))"
proof -
  from assms(1) obtain kvs where plan: "plan = PDict kvs"
    by (cases plan) auto
  have "execute_operation L d plan = regression L d plan"
    using assms(1) by (simp add: execute_operation_def plan py_get_def)
  then show ?thesis
    using assms by (simp add: regression_def andthen_cases)
qed

lemma flat_x: "column_values stand_in flat (PStr ''x'') = Inr [CNum (Fin 1), CNum (Fin 1)]"
  by (simp add: flat_def column_names_def column_cells_def cell_of_def)

lemma flat_y: "column_values stand_in flat (PStr ''y'') = Inr [CNum (Fin 1), CNum (Fin 3)]"
  by (simp add: flat_def column_names_def column_cells_def cell_of_def)

lemma flat_fit:
  "linreg_fit stand_in [CNum (Fin 1), CNum (Fin 1)] [CNum (Fin 1), CNum (Fin 3)] = Inr (Fin 0, Fin 2)"
  by (simp add: stand_in_def ols_fit_def finite_values_def ols_def mean_def Let_def)

lemma flat_score:
  "linreg_score stand_in [CNum (Fin 1), CNum (Fin 1)] [CNum (Fin 1), CNum (Fin 3)] (Fin 0, Fin 2)
     = Inr (Fin 0)"
  by (simp add: stand_in_def ols_score_def finite_values_def r2_def mean_def Let_def)

text \<open>Witness for C5: the two rows of \<open>flat\<close>.\<close>

theorem regression_has_no_guard_witness:
  "execute_operation stand_in flat
     (PDict [(''operation'', PStr ''regression''), (''x_axis'', PStr ''x''), (''y_axis'', PStr ''y'')])
   = Inr (Regression \<lparr>slope = Fin 0, intercept = Fin 2, r_squared = Fin 0,
            x_column = PStr ''x'', y_column = PStr ''y''\<rparr>)"
  using regression_has_no_guard [where L = stand_in and d = flat and x_col = "PStr ''x''"
      and y_col = "PStr ''y''", OF _ _ _ flat_x flat_y,
      of "PDict [(''operation'', PStr ''regression''), (''x_axis'', PStr ''x''), (''y_axis'', PStr ''y'')]"]
  by (simp add: flat_fit flat_score)

text \<open>
  Counterexample for C5 as stated: the column \<open>x\<close> of \<open>flat\<close> holds one distinct
  value; least squares still has a solution (slope 0, intercept the mean of \<open>y\<close>), and
  \<open>execute_plan\<close> returns success with the fitted payload, not a failure.
\<close>

theorem single_x_value_counterexample:
  "card (set (column_cells flat ''x'')) = 1
   \<and> execute_plan stand_in \<lparr>df = Some flat, column_info = columns flat\<rparr>
     (PDict [(''operation'', PStr ''regression''), (''x_axis'', PStr ''x''), (''y_axis'', PStr ''y'')])
   = Success \<lparr>operation = PStr ''regression'',
       result = Regression \<lparr>slope = Fin 0, intercept = Fin 2, r_squared = Fin 0,
            x_column = PStr ''x'', y_column = PStr ''y''\<rparr>,
       chart = None, filtered_row_count = 2\<rparr>"
proof -
  have "card (set (column_cells flat ''x'')) = 1"
    by (simp add: flat_def column_cells_def cell_of_def)
  moreover have "execute_operation stand_in flat
     (PDict [(''operation'', PStr ''regression''), (''x_axis'', PStr ''x''), (''y_axis'', PStr ''y'')])
   = Inr (Regression \<lparr>slope = Fin 0, intercept = Fin 2, r_squared = Fin 0,
            x_column = PStr ''x'', y_column = PStr ''y''\<rparr>)"
    by (simp add: execute_operation_def py_get_def regression_def flat_x flat_y flat_fit flat_score
        del: column_values.simps)
  moreover have "apply_filters stand_in flat (PList []) = Inr flat"
    by (simp add: apply_filters_def)
  moreover have "\<not> frame_empty flat" "length (rows flat) = 2"
    by (simp_all add: frame_empty_def flat_def)
  ultimately show ?thesis
    by (simp add: execute_plan_def execute_body_def py_get_def)
qed

subsection \<open>Forecast\<close>


lemma train_window_suffix: "train_window vals = drop (length vals - 12) vals"
  by (auto simp: train_window_def last_slice_def min_def)

lemma length_train_window: "length (train_window vals) = min (length vals) 12"
  by (auto simp: train_window_suffix)






end
